theory Spec2Isabelle
  imports Main
begin

section \<open>Strings\<close>

text \<open>
  A Python \<open>str\<close> is modelled by \<^typ>\<open>string\<close>; a \<^typ>\<open>char\<close> stands for the code
  point of the same number, so the model covers the code points 0 to 255. The character
  classes below are those of Python 3 on that range.
\<close>

definition is_space :: "char \<Rightarrow> bool" where
  \<comment> \<open>\<open>str.isspace\<close>, the characters \<open>str.strip()\<close> removes\<close>
  "is_space c = (let n = (of_char c :: nat) in
     (9 \<le> n \<and> n \<le> 13) \<or> (28 \<le> n \<and> n \<le> 32) \<or> n = 133 \<or> n = 160)"

definition is_word :: "char \<Rightarrow> bool" where
  \<comment> \<open>the class \<open>\w\<close> of \<open>re\<close> on a \<open>str\<close> pattern\<close>
  "is_word c = (let n = (of_char c :: nat) in
     (48 \<le> n \<and> n \<le> 57) \<or> (65 \<le> n \<and> n \<le> 90) \<or> n = 95 \<or> (97 \<le> n \<and> n \<le> 122) \<or>
     n = 170 \<or> n = 178 \<or> n = 179 \<or> n = 181 \<or> n = 185 \<or> n = 186 \<or>
     (188 \<le> n \<and> n \<le> 190) \<or> (192 \<le> n \<and> n \<le> 214) \<or> (216 \<le> n \<and> n \<le> 246) \<or> 248 \<le> n)"

definition lower :: "char \<Rightarrow> char" where
  \<comment> \<open>case folding as \<open>re.IGNORECASE\<close> needs it for a pattern of ASCII letters\<close>
  "lower c = (case map_of (zip ''ABCDEFGHIJKLMNOPQRSTUVWXYZ'' ''abcdefghijklmnopqrstuvwxyz'') c of
       Some l \<Rightarrow> l
     | None \<Rightarrow> c)"

definition strip :: "string \<Rightarrow> string" where
  \<comment> \<open>\<open>s.strip()\<close>\<close>
  "strip s = rev (dropWhile is_space (rev (dropWhile is_space s)))"

fun startswith :: "string \<Rightarrow> string \<Rightarrow> bool" where
  \<comment> \<open>\<open>s.startswith(p)\<close>, the text first\<close>
  "startswith s [] = True"
| "startswith [] (p # ps) = False"
| "startswith (c # cs) (p # ps) = (c = p \<and> startswith cs ps)"

fun contains :: "string \<Rightarrow> string \<Rightarrow> bool" where
  \<comment> \<open>\<open>p in s\<close>: \<open>p\<close> occurs in \<open>s\<close> as a substring\<close>
  "contains [] p = (p = [])"
| "contains (c # cs) p = (startswith (c # cs) p \<or> contains cs p)"

fun join :: "string \<Rightarrow> string list \<Rightarrow> string" where
  \<comment> \<open>\<open>sep.join(xs)\<close>\<close>
  "join sep [] = []"
| "join sep [x] = x"
| "join sep (x # y # ys) = x @ sep @ join sep (y # ys)"

fun replace :: "string \<Rightarrow> string \<Rightarrow> string \<Rightarrow> string" where
  \<comment> \<open>\<open>s.replace(old, new)\<close> for a non-empty \<open>old\<close>, the text last\<close>
  "replace old new [] = []"
| "replace old new (c # cs) =
     (if old \<noteq> [] \<and> startswith (c # cs) old
      then new @ replace old new (drop (length old - 1) cs)
      else c # replace old new cs)"

fun dec :: "nat \<Rightarrow> string" where
  \<comment> \<open>\<open>str(n)\<close> for a non-negative integer\<close>
  "dec n = (if n < 10 then [''0123456789'' ! n] else dec (n div 10) @ [''0123456789'' ! (n mod 10)])"

declare dec.simps [simp del]

definition zfill :: "nat \<Rightarrow> string \<Rightarrow> string" where
  \<comment> \<open>zero padding on the left to a width, as the \<open>strftime\<close> fields have it\<close>
  "zfill k s = replicate (k - length s) (CHR ''0'') @ s"

section \<open>The parsed document\<close>

text \<open>
  \<open>BeautifulSoup(response.text, 'html.parser')\<close> is a tree of tags and strings. A tag has
  a name, a dict of attributes and its contents; the soup itself is the list of its
  top-level nodes under the name \<open>[document]\<close>. A string is of one of the classes of
  \<open>bs4\<close>: ordinary text is a \<open>NavigableString\<close>, a comment is a \<open>Comment\<close>, and the text
  inside \<open>script\<close>, \<open>style\<close> and \<open>template\<close> is a \<open>Script\<close>, a \<open>Stylesheet\<close> and a
  \<open>TemplateString\<close>.
\<close>

datatype string_class =
    NavigableString | CData | Comment | Declaration | Doctype | ProcessingInstruction
  | Script | Stylesheet | TemplateString | RubyTextString | RubyParenthesisString

datatype node =
    Str string_class string
  | Tag (name: string) (attrs: "string \<rightharpoonup> string") (contents: "node list")

record place =
  here :: node
  parent_name :: string
  parent_contents :: "node list"
  next_siblings :: "node list"

function walk :: "string \<Rightarrow> node list \<Rightarrow> node list \<Rightarrow> place list" where
  \<comment> \<open>the nodes below a parent in document order, each with the name and the contents
      of its parent and the siblings after it; the last argument is what is left to
      visit\<close>
  "walk pn pc [] = []"
| "walk pn pc (Str k s # ns) =
     \<lparr>here = Str k s, parent_name = pn, parent_contents = pc, next_siblings = ns\<rparr> #
     walk pn pc ns"
| "walk pn pc (Tag t a cs # ns) =
     \<lparr>here = Tag t a cs, parent_name = pn, parent_contents = pc, next_siblings = ns\<rparr> #
     walk t cs cs @ walk pn pc ns"
  by pat_completeness auto
termination
  by (relation "measure (\<lambda>(pn, pc, ns). size_list size ns)") auto

definition root_name :: string where
  \<comment> \<open>the name of the soup object\<close>
  "root_name = ''[document]''"

definition places :: "node list \<Rightarrow> place list" where
  \<comment> \<open>the nodes of a soup\<close>
  "places ns = walk root_name ns ns"

definition descendants :: "node list \<Rightarrow> node list" where
  \<comment> \<open>\<open>.descendants\<close> of the tag or soup with these contents\<close>
  "descendants ns = map here (places ns)"

fun is_tag :: "string \<Rightarrow> node \<Rightarrow> bool" where
  "is_tag t (Str k s) = False"
| "is_tag t (Tag t' a cs) = (t' = t)"

fun has_attr :: "string \<Rightarrow> string \<Rightarrow> node \<Rightarrow> bool" where
  \<comment> \<open>the attribute filter \<open>{k: v}\<close> of \<open>find\<close>\<close>
  "has_attr k v (Str c s) = False"
| "has_attr k v (Tag t a cs) = (a k = Some v)"

fun get :: "node \<Rightarrow> string \<Rightarrow> string option" where
  \<comment> \<open>\<open>tag.get(k)\<close>\<close>
  "get (Str c s) k = None"
| "get (Tag t a cs) k = a k"

fun node_name :: "node \<Rightarrow> string" where
  "node_name (Str k s) = []"
| "node_name (Tag t a cs) = t"

fun node_contents :: "node \<Rightarrow> node list" where
  "node_contents (Str k s) = []"
| "node_contents (Tag t a cs) = cs"

definition interesting_string_types :: "string \<Rightarrow> string_class list" where
  \<comment> \<open>the classes of string that make up the text of a tag of this name: the string
      containers of the HTML tree builder, and text and CDATA for any other tag\<close>
  "interesting_string_types t =
     (if t = ''rt'' then [RubyTextString]
      else if t = ''rp'' then [RubyParenthesisString]
      else if t = ''style'' then [Stylesheet]
      else if t = ''script'' then [Script]
      else if t = ''template'' then [TemplateString]
      else [NavigableString, CData])"

fun strings_of :: "string_class list \<Rightarrow> node list \<Rightarrow> string list" where
  \<comment> \<open>the strings of the given classes among the nodes, in the order given\<close>
  "strings_of ks [] = []"
| "strings_of ks (Str k s # ns) = (if k \<in> set ks then s # strings_of ks ns else strings_of ks ns)"
| "strings_of ks (Tag t a cs # ns) = strings_of ks ns"

definition get_text_strip :: "string \<Rightarrow> node list \<Rightarrow> string" where
  \<comment> \<open>\<open>get_text(strip=True)\<close> of the tag or soup with this name and these contents:
      the strings below it that are of a class interesting to it, each stripped, the
      empty ones dropped, joined with nothing between\<close>
  "get_text_strip t ns =
     concat (filter (\<lambda>s. s \<noteq> [])
       (map strip (strings_of (interesting_string_types t) (descendants ns))))"

definition tag_text :: "node \<Rightarrow> string" where
  \<comment> \<open>\<open>tag.get_text(strip=True)\<close>\<close>
  "tag_text n = get_text_strip (node_name n) (node_contents n)"

fun tag_string :: "node \<Rightarrow> string option" where
  \<comment> \<open>\<open>.string\<close>: the only child when it is a string of any class, the \<open>.string\<close> of the
      only child when it is a tag, and \<open>None\<close> when there is not exactly one child\<close>
  "tag_string (Str k s) = Some s"
| "tag_string (Tag t a [c]) = tag_string c"
| "tag_string (Tag t a cs) = None"

definition find_first :: "(node \<Rightarrow> bool) \<Rightarrow> node list \<Rightarrow> place option" where
  \<comment> \<open>\<open>find\<close>: the first node below, in document order, that the filter accepts\<close>
  "find_first P ns = List.find (\<lambda>p. P (here p)) (places ns)"

definition find_all :: "(node \<Rightarrow> bool) \<Rightarrow> node list \<Rightarrow> node list" where
  \<comment> \<open>\<open>find_all\<close> and \<open>select\<close>: every node below that the filter accepts, in document order\<close>
  "find_all P ns = filter P (descendants ns)"

datatype error = KeyError string | ValueError string | FileNotFoundError string

fun item :: "node \<Rightarrow> string \<Rightarrow> error + string" where
  \<comment> \<open>\<open>tag[k]\<close>, which raises \<open>KeyError\<close> when the tag has no attribute \<open>k\<close>\<close>
  "item n k = (case get n k of Some v \<Rightarrow> Inr v | None \<Rightarrow> Inl (KeyError k))"

section \<open>The article extractor\<close>

record metadata =
  title :: string
  summary :: string
  publish_date :: string
  article_image :: string
  article_content :: string
  image_credit :: string
  tags :: string

definition credit_pattern :: "string \<Rightarrow> bool" where
  \<comment> \<open>\<open>re.compile(r'Image (source|credit)', re.IGNORECASE).search(s)\<close> finds a match\<close>
  "credit_pattern s =
     (let l = map lower s in contains l ''image source'' \<or> contains l ''image credit'')"

fun is_string :: "(string \<Rightarrow> bool) \<Rightarrow> node \<Rightarrow> bool" where
  \<comment> \<open>the filter \<open>string=pattern\<close> of \<open>find\<close> when no tag name is given: a string of
      any class that the pattern matches\<close>
  "is_string P (Str k s) = P s"
| "is_string P (Tag t a cs) = False"

text \<open>
  The seven rules of \<open>scrape_article_metadata\<close>, each the value of the local variable of
  its name, as a function of the parsed response \<open>soup\<close>.
\<close>

definition title_rule :: "node list \<Rightarrow> string" where
  "title_rule soup = (case find_first (is_tag ''h1'') soup of
       Some h \<Rightarrow> tag_text (here h)
     | None \<Rightarrow> ''Title not found'')"

definition summary_rule :: "node list \<Rightarrow> error + string" where
  "summary_rule soup =
     (let summary_tag = find_first (\<lambda>n. is_tag ''meta'' n \<and> has_attr ''name'' ''description'' n) soup
      in case summary_tag of
           Some t \<Rightarrow> item (here t) ''content''
         | None \<Rightarrow> Inr ''Summary not found'')"

definition publish_date_rule :: "node list \<Rightarrow> string" where
  "publish_date_rule soup =
     (let time_tag = find_first (is_tag ''time'') soup
      in case time_tag of
           Some t \<Rightarrow> tag_text (here t)
         | None \<Rightarrow> ''Publish date not found'')"

definition article_image_rule :: "node list \<Rightarrow> error + string" where
  "article_image_rule soup =
     (let image_tag = find_first (\<lambda>n. is_tag ''meta'' n \<and> has_attr ''property'' ''og:image'' n) soup
      in case image_tag of
           Some t \<Rightarrow> item (here t) ''content''
         | None \<Rightarrow> Inr ''Image not found'')"

definition article_content_rule :: "node list \<Rightarrow> string" where
  "article_content_rule soup =
     (let main_content_area =
            find_first (\<lambda>n. is_tag ''main'' n \<and> has_attr ''id'' ''main-content'' n) soup
      in case main_content_area of
           Some m \<Rightarrow>
             (let paragraphs = find_all (is_tag ''p'') (node_contents (here m))
              in join [CHR 0x0A]
                   (filter (\<lambda>s. s \<noteq> [])
                      (map tag_text paragraphs)))
         | None \<Rightarrow> ''Article content not found.'')"

definition image_credit_rule :: "node list \<Rightarrow> string" where
  "image_credit_rule soup =
     (let credit_tag = find_first (is_string credit_pattern) soup
      in case credit_tag of
           Some c \<Rightarrow> get_text_strip (parent_name c) (parent_contents c)
         | None \<Rightarrow> ''Image credit not found'')"

definition tags_rule :: "node list \<Rightarrow> string list" where
  "tags_rule soup =
     (let tags_heading =
            find_first (\<lambda>n. is_tag ''h2'' n \<and> tag_string n = Some ''Related Topics'') soup
      in case tags_heading of
           None \<Rightarrow> []
         | Some h \<Rightarrow>
             (case List.find (is_tag ''ul'') (next_siblings h) of
                None \<Rightarrow> []
              | Some tags_list \<Rightarrow>
                  map tag_text (find_all (is_tag ''a'') (node_contents tags_list))))"

definition metadata_of_soup :: "node list \<Rightarrow> error + metadata" where
  \<comment> \<open>\<open>scrape_article_metadata\<close> from the parsed response on: the rules in the order of
      the source, an exception of one ending the call, then the dict\<close>
  "metadata_of_soup soup =
    (let title' = title_rule soup
     in case summary_rule soup of
          Inl e \<Rightarrow> Inl e
        | Inr summary' \<Rightarrow>
           (let publish_date' = publish_date_rule soup
            in case article_image_rule soup of
                 Inl e \<Rightarrow> Inl e
               | Inr article_image' \<Rightarrow>
                  (let article_content' = article_content_rule soup;
                       image_credit' = image_credit_rule soup;
                       tags' = tags_rule soup
                   in Inr \<lparr>title = title', summary = summary', publish_date = publish_date',
                           article_image = article_image', article_content = article_content',
                           image_credit = image_credit', tags = join '', '' tags'\<rparr>)))"

section \<open>The world and the state of a run\<close>

record datetime =
  year :: nat
  month :: nat
  day :: nat
  hour :: nat
  minute :: nat
  second :: nat
  microsecond :: nat

definition strftime :: "datetime \<Rightarrow> string" where
  \<comment> \<open>\<open>dt.strftime('%Y%m%d%H%M%S')\<close>\<close>
  "strftime dt = zfill 4 (dec (year dt)) @ zfill 2 (dec (month dt)) @ zfill 2 (dec (day dt)) @
     zfill 2 (dec (hour dt)) @ zfill 2 (dec (minute dt)) @ zfill 2 (dec (second dt))"

text \<open>
  What the program calls and does not define: \<open>urllib.parse.urljoin\<close>, which raises
  \<open>ValueError\<close> on some references; \<open>requests.get\<close> followed by \<open>raise_for_status\<close> and the
  HTML parser, which gives the parsed body or the message of the \<open>RequestException\<close>; and
  the clock, read by \<open>datetime.now()\<close>, as the reading of each call in turn.
\<close>

record world =
  urljoin :: "string \<Rightarrow> string \<Rightarrow> error + string"
  http_get :: "string \<Rightarrow> string + node list"
  now :: "nat \<Rightarrow> datetime"

text \<open>
  The state the program changes: the CSV files by path, each as the rows it holds; the
  JSON files by path, each as the dict dumped into it; the paths that name a directory;
  the lines printed; the number of clock readings so far. A path names a CSV file or a
  JSON file, never both, and paths are compared as they are written. The handoff path
  is the operator's and is taken to be writable; the path of a JSON file is computed by
  the program, and opening it raises \<open>FileNotFoundError\<close> when its directory does not
  exist. An exception that nothing catches ends the run: the model keeps the exception
  and no state.
\<close>

record state =
  csv_files :: "string \<rightharpoonup> string list list"
  json_files :: "string \<rightharpoonup> metadata"
  dirs :: "string set"
  out :: "string list"
  clock_reads :: nat

definition print :: "string \<Rightarrow> state \<Rightarrow> state" where
  "print line st = st\<lparr>out := out st @ [line]\<rparr>"

section \<open>The link collector\<close>

definition article_link :: "node \<Rightarrow> bool" where
  \<comment> \<open>the selector \<open>a[href*="/article/"]\<close>\<close>
  "article_link n = (is_tag ''a'' n \<and> (case get n ''href'' of
                                          Some h \<Rightarrow> contains h ''/article/''
                                        | None \<Rightarrow> False))"

fun write_links :: "world \<Rightarrow> string \<Rightarrow> string \<Rightarrow> node list \<Rightarrow>
    string list list \<times> string set \<Rightarrow> error + string list list \<times> string set" where
  \<comment> \<open>the loop over \<open>article_links\<close>, on the rows written so far and \<open>seen_urls\<close>\<close>
  "write_links w base_url category [] acc = Inr acc"
| "write_links w base_url category (link # links) (rows, seen_urls) =
     (case get link ''href'' of
        None \<Rightarrow> write_links w base_url category links (rows, seen_urls)
      | Some relative_url \<Rightarrow>
          if relative_url = [] then write_links w base_url category links (rows, seen_urls)
          else (case urljoin w base_url relative_url of
                  Inl e \<Rightarrow> Inl e
                | Inr full_url \<Rightarrow>
                    if full_url \<notin> seen_urls
                    then write_links w base_url category links
                           (rows @ [[base_url, category, full_url]], insert full_url seen_urls)
                    else write_links w base_url category links (rows, seen_urls)))"

definition scrape_category_to_csv ::
    "world \<Rightarrow> string \<Rightarrow> string \<Rightarrow> string \<Rightarrow> state \<Rightarrow> error + state" where
  \<comment> \<open>returns \<open>None\<close> on each of its three paths, so the result is the state alone\<close>
  "scrape_category_to_csv w base_url category csv_name st =
    (case urljoin w base_url category of
       Inl e \<Rightarrow> Inl e
     | Inr category_url \<Rightarrow>
        (let st1 = print (''[*] Scraping category page: '' @ category_url) st
         in case http_get w category_url of
              Inl e \<Rightarrow> Inr (print (''[!] Error fetching category page: '' @ e) st1)
            | Inr soup \<Rightarrow>
               (let article_links = find_all article_link soup
                in if article_links = []
                   then Inr (print (''[!] No article links found on '' @ category_url @
                      ''. The website structure may have changed, or the selector needs an update.'') st1)
                   else
                    (let st2 = print (''[*] Found '' @ dec (length article_links) @
                                 '' potential article links.'') st1
                     in case write_links w base_url category article_links
                               ([[''website'', ''category'', ''article_url'']], {}) of
                          Inl e \<Rightarrow> Inl e
                        | Inr (rows, seen_urls) \<Rightarrow>
                            Inr (print (''[+] Successfully saved article URLs to '' @ csv_name)
                                   (st2\<lparr>csv_files := (csv_files st2)(csv_name \<mapsto> rows)\<rparr>))))))"

section \<open>The driver\<close>

definition scrape_article_metadata ::
    "world \<Rightarrow> string \<Rightarrow> state \<Rightarrow> error + metadata option \<times> state" where
  \<comment> \<open>the result is the dict, or \<open>None\<close> when the fetch fails\<close>
  "scrape_article_metadata w article_url st =
    (let st1 = print (''    -> Scraping article: '' @ article_url) st
     in case http_get w article_url of
          Inl e \<Rightarrow>
            Inr (None, print (''    [!] Failed to fetch article '' @ article_url @ '': '' @ e) st1)
        | Inr soup \<Rightarrow>
            (case metadata_of_soup soup of
               Inl e \<Rightarrow> Inl e
             | Inr m \<Rightarrow> Inr (Some m, st1)))"

definition dict_reader :: "string list list \<Rightarrow> (string list \<times> string list) list" where
  \<comment> \<open>\<open>list(csv.DictReader(f))\<close>: the first row gives the field names, empty rows are
      skipped, and each dict is kept as the field names with the row\<close>
  "dict_reader rows = (case rows of
       [] \<Rightarrow> []
     | fieldnames # rest \<Rightarrow> map (Pair fieldnames) (filter (\<lambda>r. r \<noteq> []) rest))"

definition row_item :: "string list \<times> string list \<Rightarrow> string \<Rightarrow> error + string option" where
  \<comment> \<open>\<open>row[key]\<close> on a dict of the reader: a field name beyond the row holds \<open>None\<close>,
      the last of equal field names wins, a key that is no field name raises\<close>
  "row_item d key = (case d of (fieldnames, row) \<Rightarrow>
     if key \<in> set (drop (length row) fieldnames) then Inr None
     else (case map_of (rev (zip fieldnames row)) key of
             Some v \<Rightarrow> Inr (Some v)
           | None \<Rightarrow> Inl (KeyError key)))"

definition str_of :: "string option \<Rightarrow> string" where
  \<comment> \<open>a string or \<open>None\<close> inside an f-string, and as \<open>requests\<close> reads a URL\<close>
  "str_of v = (case v of Some s \<Rightarrow> s | None \<Rightarrow> ''None'')"

definition safe_title_of :: "string \<Rightarrow> string" where
  \<comment> \<open>\<open>re.sub(r'[^\w-]', '_', t)[:50]\<close>\<close>
  "safe_title_of t = take 50 (map (\<lambda>c. if is_word c \<or> c = CHR ''-'' then c else CHR ''_'') t)"

definition path_join :: "string \<Rightarrow> string \<Rightarrow> string" where
  \<comment> \<open>\<open>os.path.join(a, b)\<close> of \<open>posixpath\<close>\<close>
  "path_join a b = (if startswith b ''/'' then b
                    else if a = [] \<or> last a = CHR ''/'' then a @ b
                    else a @ ''/'' @ b)"

definition output_dir :: string where
  "output_dir = ''json_output''"

definition filename_of :: "string \<Rightarrow> string \<Rightarrow> string \<Rightarrow> string \<Rightarrow> string" where
  "filename_of website_name category safe_title timestamp =
     website_name @ ''_'' @ category @ ''_'' @ safe_title @ ''_'' @ timestamp @ ''.json''"

definition parent_dir :: "string \<Rightarrow> string" where
  \<comment> \<open>the directory a path lies in: what stands before its last slash, without the
      slashes that ends in; the root when nothing is left; empty, the working directory,
      when the path has no slash\<close>
  "parent_dir path =
     (if CHR ''/'' \<notin> set path then []
      else (let d = rev (dropWhile (\<lambda>c. c = CHR ''/'') (dropWhile (\<lambda>c. c \<noteq> CHR ''/'') (rev path)))
            in if d = [] then ''/'' else d))"

definition dump_json :: "string \<Rightarrow> metadata \<Rightarrow> state \<Rightarrow> error + state" where
  \<comment> \<open>\<open>with open(filepath, 'w', ...) as jsonfile: json.dump(metadata, jsonfile, ...)\<close>\<close>
  "dump_json filepath m st =
     (if parent_dir filepath = [] \<or> parent_dir filepath \<in> dirs st
      then Inr (st\<lparr>json_files := (json_files st)(filepath \<mapsto> m)\<rparr>)
      else Inl (FileNotFoundError filepath))"

definition article_step ::
    "world \<Rightarrow> string \<Rightarrow> string \<Rightarrow> string list \<times> string list \<Rightarrow> state \<Rightarrow> error + state" where
  \<comment> \<open>the body of the loop over \<open>articles\<close>\<close>
  "article_step w website_name category row st =
    (case row_item row ''article_url'' of
       Inl e \<Rightarrow> Inl e
     | Inr article_url \<Rightarrow>
        (case scrape_article_metadata w (str_of article_url) st of
           Inl e \<Rightarrow> Inl e
         | Inr (None, st1) \<Rightarrow> Inr st1
         | Inr (Some m, st1) \<Rightarrow>
            (let safe_title = safe_title_of (title m);
                 timestamp = strftime (now w (clock_reads st1));
                 st2 = st1\<lparr>clock_reads := Suc (clock_reads st1)\<rparr>;
                 filename = filename_of website_name category safe_title timestamp;
                 filepath = path_join output_dir filename
             in case dump_json filepath m st2 of
                  Inl e \<Rightarrow> Inl e
                | Inr st3 \<Rightarrow>
                    Inr (print (''    [+] Successfully saved metadata to '' @ filepath @ [CHR 0x0A])
                           st3))))"

fun article_loop ::
    "world \<Rightarrow> string \<Rightarrow> string \<Rightarrow> (string list \<times> string list) list \<Rightarrow> state \<Rightarrow> error + state" where
  \<comment> \<open>\<open>for row in articles\<close>\<close>
  "article_loop w website_name category [] st = Inr st"
| "article_loop w website_name category (row # rows) st =
     (case article_step w website_name category row st of
        Inl e \<Rightarrow> Inl e
      | Inr st' \<Rightarrow> article_loop w website_name category rows st')"

definition process_csv_to_json ::
    "world \<Rightarrow> string \<Rightarrow> string \<Rightarrow> string \<Rightarrow> state \<Rightarrow> error + state" where
  "process_csv_to_json w csv_name website_name category st =
    (case csv_files st csv_name of
       None \<Rightarrow> Inr (print (''[!] CSV file not found: '' @ csv_name) st)
     | Some rows \<Rightarrow>
        (let articles = dict_reader rows;
             st1 = print (CHR 0x0A # ''[*] Starting to process '' @ dec (length articles) @
                     '' articles from '' @ csv_name) st;
             st2 = st1\<lparr>dirs := insert output_dir (dirs st1)\<rparr>;
             st3 = print (''[*] JSON files will be saved in the '' @ [CHR 0x27] @ output_dir @
                     ''/'' @ [CHR 0x27] @ '' directory.'') st2
         in article_loop w website_name category articles st3))"

definition website_name_of :: "string \<Rightarrow> string" where
  \<comment> \<open>\<open>base_url.replace('https://', '').replace('www.', '').split('/')[0].replace('.', '_')\<close>\<close>
  "website_name_of base_url =
     replace ''.'' ''_'' (takeWhile (\<lambda>c. c \<noteq> CHR ''/'')
       (replace ''www.'' [] (replace ''https://'' [] base_url)))"

definition main :: "world \<Rightarrow> string \<Rightarrow> string \<Rightarrow> string \<Rightarrow> state \<Rightarrow> error + state" where
  \<comment> \<open>the script body after the arguments are parsed\<close>
  "main w base_url category csv_name st =
    (case scrape_category_to_csv w base_url category csv_name st of
       Inl e \<Rightarrow> Inl e
     | Inr st1 \<Rightarrow>
        (case process_csv_to_json w csv_name (website_name_of base_url) category st1 of
           Inl e \<Rightarrow> Inl e
         | Inr st2 \<Rightarrow> Inr (print ''[*] All tasks completed.'' st2)))"

section \<open>Notions the properties are stated with\<close>

definition link_hrefs :: "node list \<Rightarrow> string list" where
  \<comment> \<open>the references of the selected anchors of an index page, in document order\<close>
  "link_hrefs soup = List.map_filter (\<lambda>l. get l ''href'') (find_all article_link soup)"

definition header :: "string list" where
  "header = [''website'', ''category'', ''article_url'']"

definition link_record :: "string \<Rightarrow> string \<Rightarrow> string \<Rightarrow> string list" where
  \<comment> \<open>a link record as a row of the handoff file\<close>
  "link_record site category url = [site, category, url]"

fun unseen :: "'a set \<Rightarrow> 'a list \<Rightarrow> 'a list" where
  \<comment> \<open>the elements not seen before, each at its first place\<close>
  "unseen seen [] = []"
| "unseen seen (x # xs) = (if x \<in> seen then unseen seen xs else x # unseen (insert x seen) xs)"

definition text_strings :: "string \<Rightarrow> node list \<Rightarrow> string list" where
  \<comment> \<open>the strings that make up the text of an element of this name with these contents,
      in document order: those below it that are neither comments, declarations and the
      like nor the text of a \<open>script\<close>, \<open>style\<close>, \<open>template\<close>, \<open>rt\<close> or \<open>rp\<close> element; for
      an element of one of these five names, the strings of its own kind instead\<close>
  "text_strings t ns =
     List.map_filter
       (\<lambda>n. case n of
              Str k s \<Rightarrow>
                if (if t = ''rt'' then k = RubyTextString
                    else if t = ''rp'' then k = RubyParenthesisString
                    else if t = ''style'' then k = Stylesheet
                    else if t = ''script'' then k = Script
                    else if t = ''template'' then k = TemplateString
                    else k = NavigableString \<or> k = CData)
                then Some s else None
            | Tag t' a cs \<Rightarrow> None)
       (descendants ns)"

definition stripped_text_of :: "string \<Rightarrow> node list \<Rightarrow> string" where
  \<comment> \<open>the text of an element with its strings stripped one by one: each string of the
      text stripped, the empty ones dropped, joined with nothing between\<close>
  "stripped_text_of t ns = concat (filter (\<lambda>s. s \<noteq> []) (map strip (text_strings t ns)))"

definition stripped_text :: "node \<Rightarrow> string" where
  "stripped_text n = stripped_text_of (node_name n) (node_contents n)"

definition trimmed_text :: "node \<Rightarrow> string" where
  \<comment> \<open>the whitespace-trimmed text of an element: its text, stripped as a whole\<close>
  "trimmed_text n = strip (concat (text_strings (node_name n) (node_contents n)))"

definition whole_text :: "node \<Rightarrow> string" where
  \<comment> \<open>the text of an element as it stands\<close>
  "whole_text n = concat (text_strings (node_name n) (node_contents n))"




definition claimed_article_content :: "node list \<Rightarrow> string" where
  \<comment> \<open>the article content as claim C5 words it: the container is the first element
      with the id \<open>main-content\<close>, and a paragraph gives its whitespace-trimmed text\<close>
  "claimed_article_content soup =
     (case filter (\<lambda>n. get n ''id'' = Some ''main-content'') (descendants soup) of
        [] \<Rightarrow> ''Article content not found.''
      | c # _ \<Rightarrow>
          join [CHR 0x0A]
            (filter (\<lambda>s. s \<noteq> [])
               (map trimmed_text (filter (is_tag ''p'') (descendants (node_contents c))))))"


definition claimed_safe_title :: "string \<Rightarrow> string" where
  \<comment> \<open>the sanitized title as claim C9 words it: everything but word characters and
      hyphens stripped, then 50 characters kept\<close>
  "claimed_safe_title t = take 50 (filter (\<lambda>c. is_word c \<or> c = CHR ''-'') t)"

section \<open>Example runs\<close>

definition empty_state :: state where
  "empty_state = \<lparr>csv_files = Map.empty, json_files = Map.empty, dirs = {}, out = [],
     clock_reads = 0\<rparr>"

definition ready_state :: state where
  \<comment> \<open>the output directory is there\<close>
  "ready_state = empty_state\<lparr>dirs := {''json_output''}\<rparr>"

definition plain :: "string \<Rightarrow> node" where
  "plain s = Str NavigableString s"

definition elem :: "string \<Rightarrow> node list \<Rightarrow> node" where
  \<comment> \<open>an element with no attribute\<close>
  "elem t cs = Tag t Map.empty cs"

definition anchor :: "string \<Rightarrow> node" where
  "anchor h = Tag ''a'' [''href'' \<mapsto> h] [plain ''story'']"

definition index_page :: "node list" where
  \<comment> \<open>two anchors to \<open>/article/a\<close>, a navigation link and an anchor to \<open>/article/b\<close>\<close>
  "index_page = [elem ''div''
     [anchor ''/article/a'', anchor ''/article/a'', anchor ''/news'', anchor ''/article/b'']]"

definition index_page_distinct :: "node list" where
  "index_page_distinct = [elem ''div''
     [anchor ''/article/a'', anchor ''/news'', anchor ''/article/b'']]"

definition no_links_page :: "node list" where
  "no_links_page = [elem ''div'' [anchor ''/news'', plain ''/article/'']]"

definition article_page :: "node list" where
  \<comment> \<open>an article with every field, with comments, a script and a style sheet inside the
      elements that are read, an \<open>h2\<close> whose text is \<open>Related Topics\<close> but which holds a
      second node, and an ordered list before the list of topics\<close>
  "article_page = [elem ''html''
     [elem ''head''
        [Tag ''meta'' [''name'' \<mapsto> ''description'', ''content'' \<mapsto> ''A summary''] [],
         Tag ''meta'' [''property'' \<mapsto> ''og:image'', ''content'' \<mapsto> ''https://example.com/i.png''] [],
         elem ''script'' [Str Script ''var credit = 1;'']],
      elem ''body''
        [Str Comment '' page '',
         elem ''h1'' [plain '' Hello, World! '', Str Comment ''draft''],
         elem ''time'' [plain '' 7 March 2024 ''],
         Tag ''main'' [''id'' \<mapsto> ''main-content'']
           [elem ''p'' [plain '' First.'', elem ''style'' [Str Stylesheet ''.a{}'']],
            elem ''div''
              [elem ''p'' [plain ''   '', Str Comment '' note ''],
               elem ''p'' [plain ''Second.'', elem ''script'' [Str Script ''x()'']]],
            elem ''span'' [plain ''Image source, '', elem ''b'' [plain ''Getty'']]],
         elem ''h2'' [plain ''Related Topics'', elem ''span'' []],
         elem ''h2'' [elem ''span'' [plain ''Related Topics'']],
         elem ''ol'' [elem ''li'' [elem ''a'' [plain ''Other'']]],
         elem ''ul''
           [elem ''li'' [elem ''a'' [plain ''Business'', Str Comment ''c'']],
            elem ''li'' [elem ''a'' [plain '' Markets '']]]]]]"

definition article_metadata :: metadata where
  "article_metadata = \<lparr>title = ''Hello, World!'', summary = ''A summary'',
     publish_date = ''7 March 2024'', article_image = ''https://example.com/i.png'',
     article_content = ''First.'' @ [CHR 0x0A] @ ''Second.'',
     image_credit = ''Image source,Getty'', tags = ''Business, Markets''\<rparr>"



definition div_content_page :: "node list" where
  \<comment> \<open>the id \<open>main-content\<close> on a \<open>div\<close>\<close>
  "div_content_page = [Tag ''div'' [''id'' \<mapsto> ''main-content''] [elem ''p'' [plain ''Body.'']]]"

definition inline_paragraph_page :: "node list" where
  \<comment> \<open>a paragraph whose text runs through an inline element\<close>
  "inline_paragraph_page = [Tag ''main'' [''id'' \<mapsto> ''main-content'']
     [elem ''p'' [plain ''Hello '', elem ''b'' [plain ''world'']]]]"



definition meta_without_content_page :: "node list" where
  \<comment> \<open>a description \<open>meta\<close> tag that has no \<open>content\<close> attribute\<close>
  "meta_without_content_page = [elem ''html''
     [elem ''head'' [Tag ''meta'' [''name'' \<mapsto> ''description''] []],
      elem ''body'' [elem ''h1'' [plain ''Hello, World!'']]]]"

definition example_world :: world where
  \<comment> \<open>\<open>https://example.com\<close>, with \<open>urljoin\<close> on the references used: the category pages
      \<open>culture\<close>, \<open>travel\<close> and \<open>weather\<close> are the index pages above and \<open>sport\<close> answers 500;
      article \<open>a\<close> answers 500, \<open>b\<close> is the article page and \<open>c\<close> the page whose
      \<open>meta\<close> tag has no content\<close>
  "example_world = \<lparr>
     urljoin = (\<lambda>b r. if r \<in> {''culture'', ''travel'', ''weather'', ''sport''}
                      then Inr (b @ ''/'' @ r) else Inr (b @ r)),
     http_get = (\<lambda>u. if u = ''https://example.com/culture'' then Inr index_page
                     else if u = ''https://example.com/travel'' then Inr index_page_distinct
                     else if u = ''https://example.com/weather'' then Inr no_links_page
                     else if u = ''https://example.com/article/b'' then Inr article_page
                     else if u = ''https://example.com/article/c'' then Inr meta_without_content_page
                     else Inl ''500 Server Error''),
     now = (\<lambda>k. \<lparr>year = 2024, month = 3, day = 7, hour = 9, minute = 5, second = k,
                  microsecond = 123456\<rparr>)\<rparr>"

definition failing_world :: world where
  \<comment> \<open>the same site when every request answers 500\<close>
  "failing_world = example_world\<lparr>http_get := (\<lambda>u. Inl ''500 Server Error'')\<rparr>"

definition row_a :: "string list \<times> string list" where
  "row_a = ([''website'', ''category'', ''article_url''],
            [''https://example.com'', ''culture'', ''https://example.com/article/a''])"

definition row_b :: "string list \<times> string list" where
  "row_b = ([''website'', ''category'', ''article_url''],
            [''https://example.com'', ''culture'', ''https://example.com/article/b''])"

definition handoff_rows :: "string list list" where
  \<comment> \<open>the handoff file the collector writes for the category \<open>culture\<close>\<close>
  "handoff_rows = [[''website'', ''category'', ''article_url''],
     [''https://example.com'', ''culture'', ''https://example.com/article/a''],
     [''https://example.com'', ''culture'', ''https://example.com/article/b'']]"

definition stale_state :: state where
  \<comment> \<open>a handoff file is left from an earlier run\<close>
  "stale_state = empty_state\<lparr>csv_files := [''links.csv'' \<mapsto> handoff_rows]\<rparr>"

section \<open>Evaluating the examples\<close>

lemmas eval_page = elem_def plain_def anchor_def

lemmas eval_dom = find_first_def find_all_def descendants_def places_def root_name_def
  get_text_strip_def tag_text_def interesting_string_types_def strip_def is_space_def

lemmas eval_text = stripped_text_def stripped_text_of_def trimmed_text_def whole_text_def
  text_strings_def descendants_def places_def root_name_def strip_def is_space_def
  map_filter_simps

section \<open>The link collector: records of an index page\<close>

lemma article_link_href: "article_link l \<Longrightarrow> \<exists>h. get l ''href'' = Some h \<and> h \<noteq> []"
  by (cases l) (auto simp: article_link_def split: option.splits)

lemma remdups_snoc: "remdups (ys @ [x]) = remdups (filter (\<lambda>y. y \<noteq> x) ys) @ [x]"
  by (induction ys) auto

lemma unseen_remdups: "unseen seen xs = rev (remdups (rev (filter (\<lambda>x. x \<notin> seen) xs)))"
proof (induction xs arbitrary: seen)
  case Nil
  then show ?case by simp
next
  case (Cons x xs)
  show ?case
  proof (cases "x \<in> seen")
    case True
    then show ?thesis using Cons.IH [of seen] by simp
  next
    case False
    have f: "filter (\<lambda>y. y \<noteq> x) (rev (filter (\<lambda>y. y \<notin> seen) xs)) =
             rev (filter (\<lambda>y. y \<notin> insert x seen) xs)"
      by (simp add: rev_filter [symmetric] conj_commute del: rev_filter)
    have "rev (remdups (rev (filter (\<lambda>y. y \<notin> seen) (x # xs)))) =
          rev (remdups (rev (filter (\<lambda>y. y \<notin> seen) xs) @ [x]))"
      using False by simp
    also have "\<dots> = x # rev (remdups (rev (filter (\<lambda>y. y \<notin> insert x seen) xs)))"
      by (simp only: remdups_snoc f rev_append rev.simps append.simps)
    finally show ?thesis using False Cons.IH [of "insert x seen"] by simp
  qed
qed

lemma write_links_resolved:
  assumes "\<forall>l \<in> set links. article_link l"
      and "map (urljoin w b) (List.map_filter (\<lambda>l. get l ''href'') links) = map Inr urls"
  shows "write_links w b c links (rows, seen) =
           Inr (rows @ map (link_record b c) (unseen seen urls), seen \<union> set urls)"
  using assms
proof (induction links arbitrary: rows seen urls)
  case Nil
  then show ?case by simp
next
  case (Cons l links)
  from Cons.prems(1) obtain h where h: "get l ''href'' = Some h" "h \<noteq> []"
    using article_link_href [of l] by auto
  from Cons.prems(2) h obtain u us where u: "urls = u # us" "urljoin w b h = Inr u"
      "map (urljoin w b) (List.map_filter (\<lambda>l. get l ''href'') links) = map Inr us"
    by (cases urls) auto
  from Cons.prems(1) have al: "\<forall>l \<in> set links. article_link l" by simp
  show ?case
    using h u Cons.IH [OF al u(3)] by (auto simp: link_record_def)
qed


lemma find_all_accepts: "\<forall>l \<in> set (find_all P ns). P l"
  by (simp add: find_all_def)

lemma map_filter_hrefs_length:
  "\<forall>l \<in> set links. article_link l \<Longrightarrow>
     length (List.map_filter (\<lambda>l. get l ''href'') links) = length links"
proof (induction links)
  case Nil
  then show ?case by simp
next
  case (Cons l links)
  then obtain h where "get l ''href'' = Some h" using article_link_href [of l] by auto
  with Cons show ?case by simp
qed

lemma link_hrefs_length: "length (link_hrefs soup) = length (find_all article_link soup)"
  unfolding link_hrefs_def by (rule map_filter_hrefs_length) (rule find_all_accepts)

lemma first_seen_distinct: "distinct xs \<Longrightarrow> rev (remdups (rev xs)) = xs"
  by (simp add: distinct_remdups_id)

lemma link_hrefs_index_page: "link_hrefs index_page = [''/article/a'', ''/article/a'', ''/article/b'']"
  by (simp add: link_hrefs_def find_all_def descendants_def places_def index_page_def eval_page
      article_link_def)

lemma link_hrefs_index_page_distinct: "link_hrefs index_page_distinct = [''/article/a'', ''/article/b'']"
  by (simp add: link_hrefs_def find_all_def descendants_def places_def index_page_distinct_def
      eval_page article_link_def)

text \<open>
  Claim C1. When the index page is fetched and every reference of its selected anchors
  (the \<open>a\<close> tags whose \<open>href\<close> contains \<open>/article/\<close>) resolves against \<open>base_url\<close>, the
  collector returns normally and the handoff file holds the header and one record
  \<open>[base_url, category, url]\<close> per resolved URL, each URL once, in the order in which the
  URLs are first seen; there is one resolved URL per selected anchor, so N anchors with N
  distinct URLs give exactly N records in document order. With no selected anchor no
  file is written.
\<close>

theorem collect_links_records:
  assumes "urljoin w base_url category = Inr category_url"
      and "http_get w category_url = Inr soup"
      and "map (urljoin w base_url) (link_hrefs soup) = map Inr urls"
  shows "\<exists>st' records.
           scrape_category_to_csv w base_url category csv_name st = Inr st' \<and>
           csv_files st' = (if records = [] then csv_files st
                            else (csv_files st)(csv_name \<mapsto> header # records)) \<and>
           json_files st' = json_files st \<and>
           records = map (link_record base_url category) (rev (remdups (rev urls))) \<and>
           length urls = length (find_all article_link soup) \<and>
           (distinct urls \<longrightarrow> records = map (link_record base_url category) urls)"
proof -
  let ?links = "find_all article_link soup"
  let ?records = "map (link_record base_url category) (rev (remdups (rev urls)))"
  have len: "length urls = length ?links"
    using assms(3) link_hrefs_length [of soup] by (metis length_map)
  have dist: "distinct urls \<longrightarrow> ?records = map (link_record base_url category) urls"
    by (simp add: first_seen_distinct)
  show ?thesis
  proof (cases "?links = []")
    case True
    with len have "urls = []" by simp
    with True assms(1,2) len dist show ?thesis
      by (simp add: scrape_category_to_csv_def print_def)
  next
    case False
    with len have ne: "urls \<noteq> []" by auto
    have w: "write_links w base_url category ?links ([header], {}) =
               Inr ([header] @ map (link_record base_url category) (unseen {} urls), {} \<union> set urls)"
      using assms(3) unfolding link_hrefs_def
      by (intro write_links_resolved find_all_accepts)
    have u: "unseen {} urls = rev (remdups (rev urls))"
      by (simp add: unseen_remdups)
    from ne have rne: "?records \<noteq> []" by (cases urls) auto
    show ?thesis
      using False assms(1,2) w u len dist rne
      by (simp add: scrape_category_to_csv_def print_def header_def Let_def)
  qed
qed

theorem collect_links_records_witness:
  "(\<exists>st'. scrape_category_to_csv example_world ''https://example.com'' ''travel'' ''links.csv''
            empty_state = Inr st' \<and>
          csv_files st' ''links.csv'' = Some
            [[''website'', ''category'', ''article_url''],
             [''https://example.com'', ''travel'', ''https://example.com/article/a''],
             [''https://example.com'', ''travel'', ''https://example.com/article/b'']]) \<and>
   (\<exists>st'. scrape_category_to_csv example_world ''https://example.com'' ''culture'' ''links.csv''
            empty_state = Inr st' \<and>
          csv_files st' ''links.csv'' = Some
            [[''website'', ''category'', ''article_url''],
             [''https://example.com'', ''culture'', ''https://example.com/article/a''],
             [''https://example.com'', ''culture'', ''https://example.com/article/b'']])"
proof -
  have t1: "urljoin example_world ''https://example.com'' ''travel'' = Inr ''https://example.com/travel''"
    by (simp add: example_world_def)
  have t2: "http_get example_world ''https://example.com/travel'' = Inr index_page_distinct"
    by (simp add: example_world_def)
  have t3: "map (urljoin example_world ''https://example.com'') (link_hrefs index_page_distinct) =
      map Inr [''https://example.com/article/a'', ''https://example.com/article/b'']"
    by (simp add: link_hrefs_index_page_distinct example_world_def)
  have c1: "urljoin example_world ''https://example.com'' ''culture'' = Inr ''https://example.com/culture''"
    by (simp add: example_world_def)
  have c2: "http_get example_world ''https://example.com/culture'' = Inr index_page"
    by (simp add: example_world_def)
  have c3: "map (urljoin example_world ''https://example.com'') (link_hrefs index_page) =
      map Inr [''https://example.com/article/a'', ''https://example.com/article/a'',
               ''https://example.com/article/b'']"
    by (simp add: link_hrefs_index_page example_world_def)
  show ?thesis
    using collect_links_records [OF t1 t2 t3, of "''links.csv''" empty_state]
      collect_links_records [OF c1 c2 c3, of "''links.csv''" empty_state]
    by (auto simp: header_def link_record_def)
qed

section \<open>The driver: a handoff file that does not exist\<close>

text \<open>
  Claim C10. When no CSV file of the given name exists, \<open>process_csv_to_json\<close> returns
  normally and changes nothing but the printed lines, to which it adds the report of the
  missing file: no article is fetched, the clock is not read, no directory is made and
  no JSON file is written.
\<close>

theorem missing_csv_reported:
  assumes "csv_files st csv_name = None"
  shows "process_csv_to_json w csv_name website_name category st =
           Inr (st\<lparr>out := out st @ [''[!] CSV file not found: '' @ csv_name]\<rparr>)"
  using assms by (simp add: process_csv_to_json_def print_def)

theorem missing_csv_reported_witness:
  "csv_files empty_state ''links.csv'' = None \<and>
   process_csv_to_json example_world ''links.csv'' ''example_com'' ''culture'' empty_state =
     Inr (empty_state\<lparr>out := [''[!] CSV file not found: links.csv'']\<rparr>)"
proof -
  have h: "csv_files empty_state ''links.csv'' = None"
    by (simp add: empty_state_def)
  show ?thesis
    using h missing_csv_reported [OF h, of example_world "''example_com''" "''culture''"]
    by (simp add: empty_state_def)
qed

section \<open>The article extractor: the rules\<close>

lemma find_case_filter:
  "List.find P xs = (case filter P xs of [] \<Rightarrow> None | x # _ \<Rightarrow> Some x)"
  by (induction xs) auto

lemma find_first_None_iff:
  "find_first P ns = None \<longleftrightarrow> (\<forall>n \<in> set (descendants ns). \<not> P n)"
  by (auto simp: find_first_def descendants_def find_None_iff)

lemma find_first_here:
  "map_option here (find_first P ns) =
     (case filter P (descendants ns) of [] \<Rightarrow> None | x # _ \<Rightarrow> Some x)"
  unfolding find_first_def descendants_def find_case_filter filter_map
  by (simp add: comp_def split: list.splits)


lemma has_attr_get: "has_attr k v n \<longleftrightarrow> get n k = Some v"
  by (cases n) simp_all


lemma strings_of_map_filter:
  "strings_of ks ns =
     List.map_filter (\<lambda>n. case n of Str k s \<Rightarrow> if k \<in> set ks then Some s else None
                            | Tag t a cs \<Rightarrow> None) ns"
  by (induction ks ns rule: strings_of.induct) (simp_all add: map_filter_simps)

lemma get_text_strip_stripped: "get_text_strip t ns = stripped_text_of t ns"
proof -
  have "strings_of (interesting_string_types t) xs =
      List.map_filter
       (\<lambda>n. case n of
              Str k s \<Rightarrow>
                if (if t = ''rt'' then k = RubyTextString
                    else if t = ''rp'' then k = RubyParenthesisString
                    else if t = ''style'' then k = Stylesheet
                    else if t = ''script'' then k = Script
                    else if t = ''template'' then k = TemplateString
                    else k = NavigableString \<or> k = CData)
                then Some s else None
            | Tag t' a cs \<Rightarrow> None) xs" for xs
    unfolding strings_of_map_filter
    by (rule arg_cong [where f = "\<lambda>f. List.map_filter f xs"])
       (auto simp: interesting_string_types_def fun_eq_iff split: node.splits)
  then show ?thesis
    by (simp add: get_text_strip_def stripped_text_of_def text_strings_def)
qed

lemma tag_text_stripped: "tag_text = stripped_text"
  by (simp add: fun_eq_iff tag_text_def stripped_text_def get_text_strip_stripped)

lemma metadata_fields:
  assumes "metadata_of_soup soup = Inr m"
  shows "title m = title_rule soup" "summary_rule soup = Inr (summary m)"
    "publish_date m = publish_date_rule soup" "article_image_rule soup = Inr (article_image m)"
    "article_content m = article_content_rule soup" "image_credit m = image_credit_rule soup"
    "tags m = join '', '' (tags_rule soup)"
  using assms by (auto simp: metadata_of_soup_def Let_def split: sum.splits)

lemma article_content_rule_eq:
  "article_content_rule soup =
    (case filter (\<lambda>n. is_tag ''main'' n \<and> get n ''id'' = Some ''main-content'') (descendants soup) of
       [] \<Rightarrow> ''Article content not found.''
     | c # _ \<Rightarrow>
         join [CHR 0x0A]
           (filter (\<lambda>s. s \<noteq> [])
              (map stripped_text (filter (is_tag ''p'') (descendants (node_contents c))))))"
proof -
  let ?P = "\<lambda>n. is_tag ''main'' n \<and> has_attr ''id'' ''main-content'' n"
  show ?thesis
  proof (cases "find_first ?P soup")
    case None
    with find_first_here [of ?P soup] show ?thesis
      by (simp add: article_content_rule_def has_attr_get split: list.splits)
  next
    case (Some p)
    with find_first_here [of ?P soup] show ?thesis
      by (simp add: article_content_rule_def find_all_def has_attr_get tag_text_stripped
          split: list.splits)
  qed
qed


lemma metadata_of_article_page: "metadata_of_soup article_page = Inr article_metadata"
  by (simp add: metadata_of_soup_def title_rule_def summary_rule_def publish_date_rule_def
      article_image_rule_def article_content_rule_def image_credit_rule_def tags_rule_def
      article_page_def article_metadata_def eval_page eval_dom credit_pattern_def lower_def)






text \<open>
  Claim C2. The rules do not all degrade to a fallback: on a page whose description
  \<open>meta\<close> tag has no \<open>content\<close> attribute the title rule has its value, the summary rule
  raises \<open>KeyError\<close>, and with it the whole extraction of the page ends in the exception
  and no field is returned.
\<close>

theorem meta_without_content_raises:
  "title_rule meta_without_content_page = ''Hello, World!'' \<and>
   summary_rule meta_without_content_page = Inl (KeyError ''content'') \<and>
   metadata_of_soup meta_without_content_page = Inl (KeyError ''content'') \<and>
   scrape_article_metadata example_world ''https://example.com/article/c'' empty_state =
     Inl (KeyError ''content'')"
  by (simp add: scrape_article_metadata_def example_world_def metadata_of_soup_def
      title_rule_def summary_rule_def meta_without_content_page_def eval_page eval_dom)

text \<open>
  Claim C5, as amended. The article content is the fallback
  \<open>Article content not found.\<close> when the document has no \<open>main\<close> element with the id
  \<open>main-content\<close>; otherwise, for the first such element in document order, it is the
  texts of the \<open>p\<close> elements below it at any depth, in document order, the empty ones
  dropped, joined with newlines. The text of a paragraph is taken with its strings
  stripped one by one: the strings of its text (comments and the text of scripts and
  style sheets are none of them), each stripped, the empty ones dropped, joined with
  nothing between.
\<close>

theorem article_content_of_main:
  assumes "metadata_of_soup soup = Inr m"
  shows "article_content m =
    (case filter (\<lambda>n. is_tag ''main'' n \<and> get n ''id'' = Some ''main-content'') (descendants soup) of
       [] \<Rightarrow> ''Article content not found.''
     | c # _ \<Rightarrow>
         join [CHR 0x0A]
           (filter (\<lambda>s. s \<noteq> [])
              (map stripped_text (filter (is_tag ''p'') (descendants (node_contents c))))))"
proof -
  have "article_content m = article_content_rule soup"
    using assms by (rule metadata_fields)
  then show ?thesis
    by (simp only: article_content_rule_eq)
qed

theorem article_content_of_main_witness:
  "metadata_of_soup article_page = Inr article_metadata \<and>
   article_content article_metadata = ''First.'' @ [CHR 0x0A] @ ''Second.'' \<and>
   (case filter (\<lambda>n. is_tag ''main'' n \<and> get n ''id'' = Some ''main-content'')
           (descendants article_page) of
       [] \<Rightarrow> ''Article content not found.''
     | c # _ \<Rightarrow>
         join [CHR 0x0A]
           (filter (\<lambda>s. s \<noteq> [])
              (map stripped_text (filter (is_tag ''p'') (descendants (node_contents c)))))) =
     ''First.'' @ [CHR 0x0A] @ ''Second.''"
  using article_content_of_main [OF metadata_of_article_page] metadata_of_article_page
  by (simp add: article_metadata_def)

text \<open>
  Claim C5 as stated fails twice. On a page whose element with the id \<open>main-content\<close> is
  a \<open>div\<close> the article content is the fallback, not the text of the paragraph in it. And
  the paragraph \<open>Hello <b>world</b>\<close> gives \<open>Helloworld\<close>, where its whitespace-trimmed
  text is \<open>Hello world\<close>.
\<close>

theorem article_content_counterexample:
  "(\<exists>m. metadata_of_soup div_content_page = Inr m \<and>
        article_content m = ''Article content not found.'' \<and>
        claimed_article_content div_content_page = ''Body.'') \<and>
   (\<exists>m. metadata_of_soup inline_paragraph_page = Inr m \<and>
        article_content m = ''Helloworld'' \<and>
        claimed_article_content inline_paragraph_page = ''Hello world'')"
proof -
  have d: "claimed_article_content div_content_page = ''Body.''"
    by (simp add: claimed_article_content_def div_content_page_def eval_page eval_text)
  have i: "claimed_article_content inline_paragraph_page = ''Hello world''"
    by (simp add: claimed_article_content_def inline_paragraph_page_def eval_page eval_text)
  have "\<exists>m. metadata_of_soup div_content_page = Inr m \<and>
        article_content m = ''Article content not found.''"
    by (simp add: metadata_of_soup_def summary_rule_def article_image_rule_def
      article_content_rule_def div_content_page_def eval_page eval_dom)
  moreover have "\<exists>m. metadata_of_soup inline_paragraph_page = Inr m \<and>
        article_content m = ''Helloworld''"
    by (simp add: metadata_of_soup_def summary_rule_def article_image_rule_def
      article_content_rule_def inline_paragraph_page_def eval_page eval_dom)
  ultimately show ?thesis
    using d i by simp
qed






section \<open>The driver: the output file of an article\<close>

lemma safe_title_length: "length (safe_title_of t) \<le> 50"
  by (simp add: safe_title_of_def)

lemma safe_title_chars: "\<forall>c \<in> set (safe_title_of t). is_word c \<or> c = CHR ''-''"
proof -
  have u: "is_word CHR ''_''" by (simp add: is_word_def)
  have "set (safe_title_of t) \<subseteq> set (map (\<lambda>c. if is_word c \<or> c = CHR ''-'' then c else CHR ''_'') t)"
    unfolding safe_title_of_def by (rule set_take_subset)
  with u show ?thesis by auto
qed

lemma safe_title_no_slash: "CHR ''/'' \<notin> set (safe_title_of t)"
proof -
  have "\<not> is_word CHR ''/''" by (simp add: is_word_def)
  then show ?thesis using safe_title_chars [of t] by auto
qed

lemma replace_set: "set (replace old new s) \<subseteq> set s \<union> set new"
proof (induction old new s rule: replace.induct)
  case (1 old new)
  then show ?case by simp
next
  case (2 old new c cs)
  have "set (drop (length old - 1) cs) \<subseteq> set cs" by (rule set_drop_subset)
  with 2 show ?case by auto
qed

lemma website_name_no_slash: "CHR ''/'' \<notin> set (website_name_of base_url)"
proof -
  have "CHR ''/'' \<notin> set (takeWhile (\<lambda>c. c \<noteq> CHR ''/'')
          (replace ''www.'' [] (replace ''https://'' [] base_url)))"
    by (auto dest: set_takeWhileD)
  then show ?thesis
    using replace_set [of "''.''" "''_''"] unfolding website_name_of_def by fastforce
qed

lemma dec_digits: "set (dec n) \<subseteq> set ''0123456789''"
proof (induction n rule: dec.induct)
  case (1 n)
  have d: "''0123456789'' ! k \<in> set ''0123456789''" if "k < 10" for k
    using that by (intro nth_mem) simp
  show ?case
  proof (cases "n < 10")
    case True
    then show ?thesis using d [of n] by (subst dec.simps) simp
  next
    case False
    have "n mod 10 < 10" by simp
    with False 1 d [of "n mod 10"] show ?thesis by (subst dec.simps) simp
  qed
qed

lemma zfill_no_slash: "CHR ''/'' \<notin> set (zfill k (dec n))"
  using dec_digits [of n] by (auto simp: zfill_def)

lemma strftime_no_slash: "CHR ''/'' \<notin> set (strftime dt)"
  by (simp add: strftime_def zfill_no_slash)

lemma path_of_filename:
  "path_join output_dir (filename_of (website_name_of base_url) category safe_title timestamp) =
     ''json_output/'' @ website_name_of base_url @ ''_'' @ category @ ''_'' @ safe_title @ ''_'' @
       timestamp @ ''.json''"
proof -
  have "\<not> startswith (website_name_of base_url @ ''_'' @ rest) ''/''" for rest
    using website_name_no_slash [of base_url] by (cases "website_name_of base_url") auto
  then show ?thesis
    by (simp add: path_join_def filename_of_def output_dir_def)
qed

lemma parent_dir_under:
  assumes "CHR ''/'' \<notin> set f" and "d \<noteq> []" and "last d \<noteq> CHR ''/''"
  shows "parent_dir (d @ CHR ''/'' # f) = d"
proof -
  from assms(2) obtain ys y where d: "d = ys @ [y]"
    by (cases d rule: rev_cases) auto
  with assms(3) have y: "y \<noteq> CHR ''/''" by simp
  have "dropWhile (\<lambda>c. c \<noteq> CHR ''/'') (rev f @ CHR ''/'' # rev d) = CHR ''/'' # rev d"
    using assms(1) by (subst dropWhile_append2) auto
  then have "rev (dropWhile (\<lambda>c. c = CHR ''/'')
               (dropWhile (\<lambda>c. c \<noteq> CHR ''/'') (rev (d @ CHR ''/'' # f)))) = d"
    using y by (simp add: d)
  then show ?thesis
    using assms(2) by (simp add: parent_dir_def Let_def)
qed

lemma parent_dir_json_output:
  assumes "CHR ''/'' \<notin> set f"
  shows "parent_dir (''json_output/'' @ f) = ''json_output''"
  using parent_dir_under [OF assms, of "''json_output''"] by simp

lemma parent_dir_of_filename:
  assumes "CHR ''/'' \<notin> set category"
  shows "parent_dir (path_join output_dir (filename_of (website_name_of base_url) category
           (safe_title_of t) (strftime dt))) = ''json_output''"
  unfolding path_of_filename
  using assms website_name_no_slash [of base_url] safe_title_no_slash [of t]
    strftime_no_slash [of dt]
  by (intro parent_dir_json_output) simp

lemma article_step_dirs: "article_step w site cat row st = Inr st' \<Longrightarrow> dirs st' = dirs st"
  by (auto simp: article_step_def scrape_article_metadata_def dump_json_def print_def Let_def
      split: sum.splits option.splits if_splits)

lemma article_loop_dirs: "article_loop w site cat rows st = Inr st' \<Longrightarrow> dirs st' = dirs st"
proof (induction rows arbitrary: st)
  case Nil
  then show ?case by simp
next
  case (Cons row rows)
  then show ?case
    by (auto split: sum.splits dest: article_step_dirs)
qed

lemma article_loop_append:
  "article_loop w site cat (before @ after) st =
     (case article_loop w site cat before st of
        Inl x \<Rightarrow> Inl x
      | Inr st' \<Rightarrow> article_loop w site cat after st')"
  by (induction before arbitrary: st) (auto split: sum.splits)

lemma strftime_seconds: "strftime (dt\<lparr>microsecond := x\<rparr>) = strftime dt"
  by (simp add: strftime_def)

lemma article_step_saved:
  assumes "row_item row ''article_url'' = Inr u"
      and "http_get w (str_of u) = Inr soup"
      and "metadata_of_soup soup = Inr m"
      and "parent_dir (path_join output_dir (filename_of site cat
              (safe_title_of (title m)) (strftime (now w (clock_reads st))))) \<in> dirs st"
  shows "article_step w site cat row st =
     (let filepath = path_join output_dir (filename_of site cat
              (safe_title_of (title m)) (strftime (now w (clock_reads st))))
      in Inr (st\<lparr>out := out st @ [''    -> Scraping article: '' @ str_of u,
          ''    [+] Successfully saved metadata to '' @ filepath @ [CHR 0x0A]],
        clock_reads := Suc (clock_reads st),
        json_files := (json_files st)(filepath \<mapsto> m)\<rparr>))"
  unfolding article_step_def scrape_article_metadata_def dump_json_def print_def Let_def
  using assms by simp

lemma article_step_no_directory:
  assumes "row_item row ''article_url'' = Inr u"
      and "http_get w (str_of u) = Inr soup"
      and "metadata_of_soup soup = Inr m"
      and "parent_dir (path_join output_dir (filename_of site cat
              (safe_title_of (title m)) (strftime (now w (clock_reads st))))) \<noteq> []"
      and "parent_dir (path_join output_dir (filename_of site cat
              (safe_title_of (title m)) (strftime (now w (clock_reads st))))) \<notin> dirs st"
  shows "article_step w site cat row st =
     Inl (FileNotFoundError (path_join output_dir (filename_of site cat
              (safe_title_of (title m)) (strftime (now w (clock_reads st))))))"
  unfolding article_step_def scrape_article_metadata_def dump_json_def print_def Let_def
  using assms by simp

lemma article_step_failed:
  assumes "row_item row ''article_url'' = Inr u"
      and "http_get w (str_of u) = Inl e"
  shows "article_step w site cat row st =
     Inr (st\<lparr>out := out st @ [''    -> Scraping article: '' @ str_of u,
          ''    [!] Failed to fetch article '' @ str_of u @ '': '' @ e]\<rparr>)"
  unfolding article_step_def scrape_article_metadata_def print_def Let_def
  using assms by simp

lemma process_loop:
  assumes "csv_files st csv_name = Some rows"
  shows "process_csv_to_json w csv_name site cat st =
     article_loop w site cat (dict_reader rows)
       (st\<lparr>dirs := insert ''json_output'' (dirs st),
           out := out st @
             [CHR 0x0A # ''[*] Starting to process '' @ dec (length (dict_reader rows)) @
                '' articles from '' @ csv_name,
              ''[*] JSON files will be saved in the '' @ [CHR 0x27] @ ''json_output/'' @
                [CHR 0x27] @ '' directory.'']\<rparr>)"
  using assms by (simp add: process_csv_to_json_def print_def Let_def output_dir_def)

lemma row_item_a: "row_item row_a ''article_url'' = Inr (Some ''https://example.com/article/a'')"
  by (simp add: row_item_def row_a_def)

lemma row_item_b: "row_item row_b ''article_url'' = Inr (Some ''https://example.com/article/b'')"
  by (simp add: row_item_def row_b_def)

lemma get_article_a:
  "http_get example_world (str_of (Some ''https://example.com/article/a'')) = Inl ''500 Server Error''"
  by (simp add: example_world_def str_of_def)

lemma get_article_b:
  "http_get example_world (str_of (Some ''https://example.com/article/b'')) = Inr article_page"
  by (simp add: example_world_def str_of_def)

lemma website_name_example: "website_name_of ''https://example.com'' = ''example_com''"
  by (simp add: website_name_of_def)

lemma strftime_example: "strftime (now example_world 0) = ''20240307090500''"
  by (simp add: strftime_def example_world_def zfill_def dec.simps)

lemma safe_title_example: "safe_title_of ''Hello, World!'' = ''Hello__World_''"
  by (simp add: safe_title_of_def is_word_def)

lemma title_example: "title article_metadata = ''Hello, World!''"
  by (simp add: article_metadata_def)

lemma dict_reader_handoff: "dict_reader handoff_rows = [row_a, row_b]"
  by (simp add: dict_reader_def handoff_rows_def row_a_def row_b_def)

lemma saved_example:
  assumes "''json_output'' \<in> dirs st" and "clock_reads st = 0"
  shows "article_step example_world ''example_com'' ''culture'' row_b st =
    Inr (st\<lparr>out := out st @ [''    -> Scraping article: https://example.com/article/b'',
          ''    [+] Successfully saved metadata to json_output/example_com_culture_Hello__World__20240307090500.json'' @ [CHR 0x0A]],
        clock_reads := Suc 0,
        json_files := (json_files st)
          (''json_output/example_com_culture_Hello__World__20240307090500.json'' \<mapsto> article_metadata)\<rparr>)"
proof -
  have p: "path_join output_dir (filename_of ''example_com'' ''culture'' ''Hello__World_''
             ''20240307090500'') =
           ''json_output/example_com_culture_Hello__World__20240307090500.json''"
    by (simp add: path_join_def output_dir_def filename_of_def)
  have d: "parent_dir ''json_output/example_com_culture_Hello__World__20240307090500.json'' =
      ''json_output''"
    using parent_dir_json_output [of "''example_com_culture_Hello__World__20240307090500.json''"]
    by simp
  have "parent_dir (path_join output_dir (filename_of ''example_com'' ''culture''
              (safe_title_of (title article_metadata))
              (strftime (now example_world (clock_reads st))))) \<in> dirs st"
    unfolding title_example safe_title_example assms(2) strftime_example p d
    by (rule assms(1))
  from article_step_saved [OF row_item_b get_article_b metadata_of_article_page this]
  show ?thesis
    unfolding Let_def title_example safe_title_example assms(2) strftime_example p
    by (simp add: str_of_def)
qed

text \<open>
  Claim C9, as amended. Take a run of the processing stage on a handoff file, a category
  with no slash, and a row whose article is fetched and extracted, the rows before it
  having gone through. The stage has made the directory \<open>json_output\<close>, and it writes the
  record to the path \<open>json_output/{site}_{category}_{safe_title}_{timestamp}.json\<close> and
  goes on with the rows after. The site is the name the script derives from the base URL,
  the safe title is the first 50 characters of the title with every character that is
  neither a word character nor a hyphen replaced by an underscore (so it has at most 50
  characters, all of them word characters or hyphens), and the timestamp is the clock
  reading formatted as \<open>%Y%m%d%H%M%S\<close>, which does not depend on the microseconds.
\<close>

theorem output_file_name:
  assumes "csv_files st0 csv_name = Some rows"
      and "dict_reader rows = before @ row # after"
      and "article_loop w (website_name_of base_url) category before
             (st0\<lparr>dirs := insert ''json_output'' (dirs st0),
                 out := out st0 @
                   [CHR 0x0A # ''[*] Starting to process '' @ dec (length (dict_reader rows)) @
                      '' articles from '' @ csv_name,
                    ''[*] JSON files will be saved in the '' @ [CHR 0x27] @ ''json_output/'' @
                      [CHR 0x27] @ '' directory.'']\<rparr>) = Inr st"
      and "row_item row ''article_url'' = Inr u"
      and "http_get w (str_of u) = Inr soup"
      and "metadata_of_soup soup = Inr m"
      and "CHR ''/'' \<notin> set category"
  shows "(let safe_title = take 50 (map (\<lambda>c. if is_word c \<or> c = CHR ''-'' then c else CHR ''_'')
                                       (title m));
              timestamp = strftime ((now w (clock_reads st))\<lparr>microsecond := 0\<rparr>);
              filepath = ''json_output/'' @ website_name_of base_url @ ''_'' @ category @ ''_'' @
                         safe_title @ ''_'' @ timestamp @ ''.json''
          in process_csv_to_json w csv_name (website_name_of base_url) category st0 =
               article_loop w (website_name_of base_url) category after
                 (st\<lparr>out := out st @ [''    -> Scraping article: '' @ str_of u,
                         ''    [+] Successfully saved metadata to '' @ filepath @ [CHR 0x0A]],
                     clock_reads := Suc (clock_reads st),
                     json_files := (json_files st)(filepath \<mapsto> m)\<rparr>) \<and>
             length safe_title \<le> 50 \<and>
             (\<forall>c \<in> set safe_title. is_word c \<or> c = CHR ''-'') \<and>
             ''json_output'' \<in> dirs st)"
proof -
  let ?site = "website_name_of base_url"
  let ?path = "path_join output_dir (filename_of ?site category
              (safe_title_of (title m)) (strftime (now w (clock_reads st))))"
  have d: "''json_output'' \<in> dirs st"
    using article_loop_dirs [OF assms(3)] by simp
  have pd: "parent_dir ?path \<in> dirs st"
    using d by (simp only: parent_dir_of_filename [OF assms(7)])
  have step: "article_step w ?site category row st =
      Inr (st\<lparr>out := out st @ [''    -> Scraping article: '' @ str_of u,
          ''    [+] Successfully saved metadata to '' @ ?path @ [CHR 0x0A]],
        clock_reads := Suc (clock_reads st),
        json_files := (json_files st)(?path \<mapsto> m)\<rparr>)"
    using article_step_saved [OF assms(4-6) pd] unfolding Let_def .
  have p: "?path = ''json_output/'' @ ?site @ ''_'' @ category @ ''_'' @
              safe_title_of (title m) @ ''_'' @
              strftime ((now w (clock_reads st))\<lparr>microsecond := 0\<rparr>) @ ''.json''"
    by (simp only: path_of_filename strftime_seconds)
  have s: "safe_title_of (title m) =
      take 50 (map (\<lambda>c. if is_word c \<or> c = CHR ''-'' then c else CHR ''_'') (title m))"
    by (simp only: safe_title_of_def)
  let ?st3 = "st0\<lparr>dirs := insert ''json_output'' (dirs st0),
                 out := out st0 @
                   [CHR 0x0A # ''[*] Starting to process '' @ dec (length (dict_reader rows)) @
                      '' articles from '' @ csv_name,
                    ''[*] JSON files will be saved in the '' @ [CHR 0x27] @ ''json_output/'' @
                      [CHR 0x27] @ '' directory.'']\<rparr>"
  let ?written = "st\<lparr>out := out st @ [''    -> Scraping article: '' @ str_of u,
          ''    [+] Successfully saved metadata to '' @ ?path @ [CHR 0x0A]],
        clock_reads := Suc (clock_reads st),
        json_files := (json_files st)(?path \<mapsto> m)\<rparr>"
  have "process_csv_to_json w csv_name ?site category st0 =
      article_loop w ?site category (dict_reader rows) ?st3"
    using assms(1) by (rule process_loop)
  also have "\<dots> = article_loop w ?site category (before @ row # after) ?st3"
    by (rule arg_cong [where f = "\<lambda>rs. article_loop w ?site category rs ?st3", OF assms(2)])
  also have "\<dots> = article_loop w ?site category (row # after) st"
    by (simp only: article_loop_append assms(3) sum.case)
  also have "\<dots> = article_loop w ?site category after ?written"
    by (simp only: article_loop.simps step sum.case)
  finally have run: "process_csv_to_json w csv_name ?site category st0 =
      article_loop w ?site category after ?written" .
  show ?thesis
    unfolding Let_def s [symmetric] p [symmetric]
    using run d safe_title_length [of "title m"] safe_title_chars [of "title m"]
    by blast
qed

theorem output_file_name_witness:
  "\<exists>st'. process_csv_to_json example_world ''links.csv'' ''example_com'' ''culture'' stale_state =
           Inr st' \<and>
         json_files st' =
           [''json_output/example_com_culture_Hello__World__20240307090500.json'' \<mapsto>
              article_metadata] \<and>
         ''json_output'' \<in> dirs st'"
proof -
  let ?st3 = "stale_state\<lparr>dirs := insert ''json_output'' (dirs stale_state),
                 out := out stale_state @
                   [CHR 0x0A # ''[*] Starting to process '' @ dec (length (dict_reader handoff_rows)) @
                      '' articles from '' @ ''links.csv'',
                    ''[*] JSON files will be saved in the '' @ [CHR 0x27] @ ''json_output/'' @
                      [CHR 0x27] @ '' directory.'']\<rparr>"
  let ?st = "?st3\<lparr>out := out ?st3 @
      [''    -> Scraping article: '' @ str_of (Some ''https://example.com/article/a''),
       ''    [!] Failed to fetch article '' @ str_of (Some ''https://example.com/article/a'') @
          '': '' @ ''500 Server Error'']\<rparr>"
  have c: "csv_files stale_state ''links.csv'' = Some handoff_rows"
    by (simp add: stale_state_def empty_state_def)
  have r: "dict_reader handoff_rows = [row_a] @ row_b # []"
    by (simp add: dict_reader_handoff)
  have l: "article_loop example_world (website_name_of ''https://example.com'') ''culture''
      [row_a] ?st3 = Inr ?st"
    by (simp only: article_loop.simps article_step_failed [OF row_item_a get_article_a] sum.case)
  have n: "CHR ''/'' \<notin> set ''culture''"
    by simp
  have k: "clock_reads ?st = 0" "json_files ?st = Map.empty"
    by (simp_all add: stale_state_def empty_state_def)
  have "process_csv_to_json example_world ''links.csv'' (website_name_of ''https://example.com'')
          ''culture'' stale_state =
        article_loop example_world (website_name_of ''https://example.com'') ''culture'' []
          (?st\<lparr>out := out ?st @
              [''    -> Scraping article: '' @ str_of (Some ''https://example.com/article/b''),
               ''    [+] Successfully saved metadata to '' @
                 (''json_output/'' @ website_name_of ''https://example.com'' @ ''_'' @ ''culture'' @
                  ''_'' @ take 50 (map (\<lambda>c. if is_word c \<or> c = CHR ''-'' then c else CHR ''_'')
                                      (title article_metadata)) @ ''_'' @
                  strftime ((now example_world (clock_reads ?st))\<lparr>microsecond := 0\<rparr>) @ ''.json'') @
                 [CHR 0x0A]],
             clock_reads := Suc (clock_reads ?st),
             json_files := (json_files ?st)
               (''json_output/'' @ website_name_of ''https://example.com'' @ ''_'' @ ''culture'' @
                  ''_'' @ take 50 (map (\<lambda>c. if is_word c \<or> c = CHR ''-'' then c else CHR ''_'')
                                      (title article_metadata)) @ ''_'' @
                  strftime ((now example_world (clock_reads ?st))\<lparr>microsecond := 0\<rparr>) @ ''.json''
                \<mapsto> article_metadata)\<rparr>) \<and>
       ''json_output'' \<in> dirs ?st"
    using output_file_name [OF c r l row_item_b get_article_b metadata_of_article_page n]
    unfolding Let_def by blast
  then show ?thesis
    unfolding website_name_example k strftime_seconds strftime_example
      safe_title_of_def [symmetric] title_example safe_title_example
    by (simp add: stale_state_def empty_state_def)
qed

text \<open>
  Claim C9 as stated fails twice. The characters are not stripped but replaced: the title
  \<open>Hello, World!\<close> gives the safe title \<open>Hello__World_\<close>, where stripping gives
  \<open>HelloWorld\<close>, and the file is written under the former name and not under the latter.
  And with the category \<open>news/world\<close> no file is written: the path lies in a directory
  that was never made, and opening it raises \<open>FileNotFoundError\<close>.
\<close>

theorem output_file_counterexample:
  "safe_title_of ''Hello, World!'' = ''Hello__World_'' \<and>
   claimed_safe_title ''Hello, World!'' = ''HelloWorld'' \<and>
   (\<exists>st'. article_step example_world ''example_com'' ''culture'' row_b ready_state = Inr st' \<and>
      json_files st' ''json_output/example_com_culture_Hello__World__20240307090500.json'' =
        Some article_metadata \<and>
      json_files st' ''json_output/example_com_culture_HelloWorld_20240307090500.json'' = None) \<and>
   article_step example_world ''example_com'' ''news/world'' row_b ready_state =
     Inl (FileNotFoundError
            ''json_output/example_com_news/world_Hello__World__20240307090500.json'')"
proof -
  have c: "claimed_safe_title ''Hello, World!'' = ''HelloWorld''"
    by (simp add: claimed_safe_title_def is_word_def)
  have r: "''json_output'' \<in> dirs ready_state" "clock_reads ready_state = 0"
      "json_files ready_state = Map.empty" "dirs ready_state = {''json_output''}"
    by (simp_all add: ready_state_def empty_state_def)
  have p: "path_join output_dir (filename_of ''example_com'' ''news/world'' ''Hello__World_''
             ''20240307090500'') =
           ''json_output/example_com_news/world_Hello__World__20240307090500.json''"
    by (simp add: path_join_def output_dir_def filename_of_def)
  have d: "parent_dir ''json_output/example_com_news/world_Hello__World__20240307090500.json'' =
      ''json_output/example_com_news''"
    using parent_dir_under [of "''world_Hello__World__20240307090500.json''"
        "''json_output/example_com_news''"]
    by simp
  have n: "article_step example_world ''example_com'' ''news/world'' row_b ready_state =
     Inl (FileNotFoundError
            ''json_output/example_com_news/world_Hello__World__20240307090500.json'')"
    using article_step_no_directory [OF row_item_b get_article_b metadata_of_article_page,
        of "''example_com''" "''news/world''" ready_state]
    unfolding title_example safe_title_example r strftime_example p d
    by simp
  show ?thesis
    using saved_example [OF r(1,2)] c safe_title_example n
    by (simp add: r)
qed

section \<open>A run whose index page cannot be fetched\<close>

lemma scrape_fetch_failed:
  assumes "urljoin w base_url category = Inr category_url"
      and "http_get w category_url = Inl e"
  shows "scrape_category_to_csv w base_url category csv_name st =
     Inr (st\<lparr>out := out st @ [''[*] Scraping category page: '' @ category_url,
                              ''[!] Error fetching category page: '' @ e]\<rparr>)"
  unfolding scrape_category_to_csv_def print_def Let_def
  using assms by simp

lemma scrape_no_links:
  assumes "urljoin w base_url category = Inr category_url"
      and "http_get w category_url = Inr soup"
      and "find_all article_link soup = []"
  shows "scrape_category_to_csv w base_url category csv_name st =
     Inr (st\<lparr>out := out st @ [''[*] Scraping category page: '' @ category_url,
        ''[!] No article links found on '' @ category_url @
        ''. The website structure may have changed, or the selector needs an update.'']\<rparr>)"
  unfolding scrape_category_to_csv_def print_def Let_def
  using assms by simp

lemma process_missing:
  assumes "csv_files st csv_name = None"
  shows "process_csv_to_json w csv_name website_name category st =
           Inr (st\<lparr>out := out st @ [''[!] CSV file not found: '' @ csv_name]\<rparr>)"
  using assms by (simp add: process_csv_to_json_def print_def)

lemma urljoin_sport:
  "urljoin example_world ''https://example.com'' ''sport'' = Inr ''https://example.com/sport''"
  by (simp add: example_world_def)

lemma get_sport: "http_get example_world ''https://example.com/sport'' = Inl ''500 Server Error''"
  by (simp add: example_world_def)

lemma urljoin_weather:
  "urljoin example_world ''https://example.com'' ''weather'' = Inr ''https://example.com/weather''"
  by (simp add: example_world_def)

lemma get_weather: "http_get example_world ''https://example.com/weather'' = Inr no_links_page"
  by (simp add: example_world_def)

lemma no_links_page_links: "find_all article_link no_links_page = []"
  by (simp add: find_all_def descendants_def places_def no_links_page_def eval_page
      article_link_def)

text \<open>
  Claim C3, as amended. When the request for the index page fails, the collector prints
  the page and the error with its cause, writes no file and returns normally. The script
  then runs the processing stage all the same. When no file of the handoff name exists,
  that stage reports the missing file, no article is fetched, nothing is written, and
  the run ends with \<open>All tasks completed.\<close>
\<close>

theorem index_fetch_failure:
  assumes "urljoin w base_url category = Inr category_url"
      and "http_get w category_url = Inl e"
  shows "(let reported = st\<lparr>out := out st @ [''[*] Scraping category page: '' @ category_url,
                                              ''[!] Error fetching category page: '' @ e]\<rparr>
          in scrape_category_to_csv w base_url category csv_name st = Inr reported \<and>
             main w base_url category csv_name st =
               (case process_csv_to_json w csv_name (website_name_of base_url) category reported of
                  Inl x \<Rightarrow> Inl x
                | Inr st2 \<Rightarrow> Inr (print ''[*] All tasks completed.'' st2)) \<and>
             (csv_files st csv_name = None \<longrightarrow>
                main w base_url category csv_name st =
                  Inr (st\<lparr>out := out st @ [''[*] Scraping category page: '' @ category_url,
                                           ''[!] Error fetching category page: '' @ e,
                                           ''[!] CSV file not found: '' @ csv_name,
                                           ''[*] All tasks completed.'']\<rparr>)))"
proof -
  let ?reported = "st\<lparr>out := out st @ [''[*] Scraping category page: '' @ category_url,
                                         ''[!] Error fetching category page: '' @ e]\<rparr>"
  have s: "scrape_category_to_csv w base_url category csv_name st = Inr ?reported"
    using assms by (rule scrape_fetch_failed)
  have m: "main w base_url category csv_name st =
               (case process_csv_to_json w csv_name (website_name_of base_url) category ?reported of
                  Inl x \<Rightarrow> Inl x
                | Inr st2 \<Rightarrow> Inr (print ''[*] All tasks completed.'' st2))"
    by (simp add: main_def s)
  have n: "main w base_url category csv_name st =
                  Inr (st\<lparr>out := out st @ [''[*] Scraping category page: '' @ category_url,
                                           ''[!] Error fetching category page: '' @ e,
                                           ''[!] CSV file not found: '' @ csv_name,
                                           ''[*] All tasks completed.'']\<rparr>)"
    if "csv_files st csv_name = None"
  proof -
    from that have "csv_files ?reported csv_name = None" by simp
    from process_missing [OF this] show ?thesis
      unfolding m by (simp add: print_def)
  qed
  show ?thesis
    unfolding Let_def using s m n by blast
qed

theorem index_fetch_failure_witness:
  "main example_world ''https://example.com'' ''sport'' ''links.csv'' empty_state =
     Inr (empty_state\<lparr>out := [''[*] Scraping category page: https://example.com/sport'',
                              ''[!] Error fetching category page: 500 Server Error'',
                              ''[!] CSV file not found: links.csv'',
                              ''[*] All tasks completed.'']\<rparr>)"
proof -
  have n: "csv_files empty_state ''links.csv'' = None"
    by (simp add: empty_state_def)
  have o: "out empty_state = []"
    by (simp add: empty_state_def)
  have "csv_files empty_state ''links.csv'' = None \<longrightarrow>
     main example_world ''https://example.com'' ''sport'' ''links.csv'' empty_state =
        Inr (empty_state\<lparr>out := out empty_state @
           [''[*] Scraping category page: '' @ ''https://example.com/sport'',
            ''[!] Error fetching category page: '' @ ''500 Server Error'',
            ''[!] CSV file not found: '' @ ''links.csv'',
            ''[*] All tasks completed.'']\<rparr>)"
    using index_fetch_failure [OF urljoin_sport get_sport, of empty_state "''links.csv''"]
    unfolding Let_def by blast
  with n show ?thesis
    unfolding o by simp
qed

text \<open>
  Claim C3 as stated fails: the run does not end at the failed request. When a handoff
  file of the same name is left from an earlier run, the processing stage reads it, and
  its articles are fetched and written.
\<close>

theorem stale_handoff_counterexample:
  "\<exists>st'. main example_world ''https://example.com'' ''sport'' ''links.csv'' stale_state = Inr st' \<and>
     csv_files stale_state ''links.csv'' = Some handoff_rows \<and>
     json_files stale_state = Map.empty \<and>
     json_files st' ''json_output/example_com_sport_Hello__World__20240307090500.json'' =
        Some article_metadata \<and>
     ''    -> Scraping article: https://example.com/article/b'' \<in> set (out st')"
proof -
  let ?reported = "stale_state\<lparr>out := out stale_state @
      [''[*] Scraping category page: '' @ ''https://example.com/sport'',
       ''[!] Error fetching category page: '' @ ''500 Server Error'']\<rparr>"
  have s: "scrape_category_to_csv example_world ''https://example.com'' ''sport'' ''links.csv''
             stale_state = Inr ?reported"
    using urljoin_sport get_sport by (rule scrape_fetch_failed)
  have c: "csv_files ?reported ''links.csv'' = Some handoff_rows"
    by (simp add: stale_state_def empty_state_def)
  have p: "path_join output_dir (filename_of ''example_com'' ''sport'' ''Hello__World_''
             ''20240307090500'') =
           ''json_output/example_com_sport_Hello__World__20240307090500.json''"
    by (simp add: path_join_def output_dir_def filename_of_def)
  have d: "parent_dir ''json_output/example_com_sport_Hello__World__20240307090500.json'' =
      ''json_output''"
    using parent_dir_json_output [of "''example_com_sport_Hello__World__20240307090500.json''"]
    by simp
  have b: "article_step example_world ''example_com'' ''sport'' row_b st =
    Inr (st\<lparr>out := out st @ [''    -> Scraping article: https://example.com/article/b'',
          ''    [+] Successfully saved metadata to json_output/example_com_sport_Hello__World__20240307090500.json'' @ [CHR 0x0A]],
        clock_reads := Suc 0,
        json_files := (json_files st)
          (''json_output/example_com_sport_Hello__World__20240307090500.json'' \<mapsto> article_metadata)\<rparr>)"
    if "''json_output'' \<in> dirs st" and k: "clock_reads st = 0" for st
  proof -
    have "parent_dir (path_join output_dir (filename_of ''example_com'' ''sport''
              (safe_title_of (title article_metadata))
              (strftime (now example_world (clock_reads st))))) \<in> dirs st"
      unfolding title_example safe_title_example k strftime_example p d
      by (rule that(1))
    from article_step_saved [OF row_item_b get_article_b metadata_of_article_page this]
    show ?thesis
      unfolding Let_def title_example safe_title_example k strftime_example p
      by (simp add: str_of_def)
  qed
  show ?thesis
    unfolding main_def s sum.case process_loop [OF c] dict_reader_handoff website_name_example
    by (simp add: article_step_failed [OF row_item_a get_article_a] b print_def
        stale_state_def empty_state_def str_of_def)
qed

section \<open>An index page with no article link\<close>

text \<open>
  Claim C8, as amended. When the index page is fetched and no anchor matches, the
  collector does not raise: it prints a warning that names the page, writes no file and
  returns normally, with the state otherwise unchanged.
\<close>

theorem no_links_warning:
  assumes "urljoin w base_url category = Inr category_url"
      and "http_get w category_url = Inr soup"
      and "find_all article_link soup = []"
  shows "scrape_category_to_csv w base_url category csv_name st =
     Inr (st\<lparr>out := out st @ [''[*] Scraping category page: '' @ category_url,
        ''[!] No article links found on '' @ category_url @
        ''. The website structure may have changed, or the selector needs an update.'']\<rparr>)"
  using assms by (rule scrape_no_links)

theorem no_links_warning_witness:
  "scrape_category_to_csv example_world ''https://example.com'' ''weather'' ''links.csv''
     empty_state =
   Inr (empty_state\<lparr>out := [''[*] Scraping category page: https://example.com/weather'',
     ''[!] No article links found on https://example.com/weather. The website structure may have changed, or the selector needs an update.'']\<rparr>)"
proof -
  have o: "out empty_state = []"
    by (simp add: empty_state_def)
  show ?thesis
    using no_links_warning [OF urljoin_weather get_weather no_links_page_links,
        of "''links.csv''" empty_state]
    unfolding o by simp
qed

text \<open>
  Claim C8 as stated fails: the caller cannot tell this outcome from a failed request.
  The function returns \<open>None\<close> on every path, and the same call leaves the same files,
  directories and clock after a page with no article link as after a request that
  fails; the two runs differ in the printed lines only.
\<close>

theorem no_links_indistinguishable_counterexample:
  "\<exists>s1 s2.
     scrape_category_to_csv example_world ''https://example.com'' ''weather'' ''links.csv''
       empty_state = Inr s1 \<and>
     scrape_category_to_csv failing_world ''https://example.com'' ''weather'' ''links.csv''
       empty_state = Inr s2 \<and>
     http_get example_world ''https://example.com/weather'' = Inr no_links_page \<and>
     http_get failing_world ''https://example.com/weather'' = Inl ''500 Server Error'' \<and>
     csv_files s1 = csv_files s2 \<and> json_files s1 = json_files s2 \<and> dirs s1 = dirs s2 \<and>
     clock_reads s1 = clock_reads s2 \<and> out s1 \<noteq> out s2"
proof -
  have u: "urljoin failing_world ''https://example.com'' ''weather'' = Inr ''https://example.com/weather''"
    by (simp add: failing_world_def example_world_def)
  have g: "http_get failing_world ''https://example.com/weather'' = Inl ''500 Server Error''"
    by (simp add: failing_world_def)
  show ?thesis
    unfolding scrape_no_links [OF urljoin_weather get_weather no_links_page_links]
      scrape_fetch_failed [OF u g]
    using get_weather g by simp
qed

section \<open>An article that cannot be fetched\<close>

text \<open>
  Claim C4. When the request for the article of a row fails, \<open>scrape_article_metadata\<close>
  returns \<open>None\<close> and changes only the printed lines, and the loop over a batch that holds
  the row goes on with the rows after it from a state that differs from the one before
  the row in the two printed lines only: no file is written for the row, and the rows
  after it are processed as they would be without it.
\<close>

theorem fetch_failure_skips_article:
  assumes "row_item row ''article_url'' = Inr u"
      and "http_get w (str_of u) = Inl e"
  shows "(let skipped = (\<lambda>st. st\<lparr>out := out st @ [''    -> Scraping article: '' @ str_of u,
                           ''    [!] Failed to fetch article '' @ str_of u @ '': '' @ e]\<rparr>)
          in scrape_article_metadata w (str_of u) st = Inr (None, skipped st) \<and>
             article_loop w website_name category (before @ row # after) st =
               (case article_loop w website_name category before st of
                  Inl x \<Rightarrow> Inl x
                | Inr st' \<Rightarrow> article_loop w website_name category after (skipped st')))"
proof -
  have s: "scrape_article_metadata w (str_of u) st =
      Inr (None, st\<lparr>out := out st @ [''    -> Scraping article: '' @ str_of u,
                           ''    [!] Failed to fetch article '' @ str_of u @ '': '' @ e]\<rparr>)"
    using assms(2) by (simp add: scrape_article_metadata_def print_def Let_def)
  have l: "article_loop w website_name category (row # after) st' =
      article_loop w website_name category after
        (st'\<lparr>out := out st' @ [''    -> Scraping article: '' @ str_of u,
                           ''    [!] Failed to fetch article '' @ str_of u @ '': '' @ e]\<rparr>)" for st'
    by (simp add: article_step_failed [OF assms])
  show ?thesis
    unfolding Let_def article_loop_append using s l by (simp split: sum.splits)
qed

theorem fetch_failure_skips_article_witness:
  "\<exists>st'. article_loop example_world ''example_com'' ''culture'' [row_a, row_b] ready_state = Inr st' \<and>
     out st' = [''    -> Scraping article: https://example.com/article/a'',
                ''    [!] Failed to fetch article https://example.com/article/a: 500 Server Error'',
                ''    -> Scraping article: https://example.com/article/b'',
                ''    [+] Successfully saved metadata to json_output/example_com_culture_Hello__World__20240307090500.json'' @ [CHR 0x0A]] \<and>
     json_files st' = [''json_output/example_com_culture_Hello__World__20240307090500.json'' \<mapsto>
                         article_metadata]"
proof -
  let ?skipped = "ready_state\<lparr>out := out ready_state @
           [''    -> Scraping article: '' @ str_of (Some ''https://example.com/article/a''),
            ''    [!] Failed to fetch article '' @ str_of (Some ''https://example.com/article/a'') @
              '': '' @ ''500 Server Error'']\<rparr>"
  let ?written = "?skipped\<lparr>out := out ?skipped @
         [''    -> Scraping article: https://example.com/article/b'',
          ''    [+] Successfully saved metadata to json_output/example_com_culture_Hello__World__20240307090500.json'' @ [CHR 0x0A]],
        clock_reads := Suc 0,
        json_files := (json_files ?skipped)
          (''json_output/example_com_culture_Hello__World__20240307090500.json'' \<mapsto> article_metadata)\<rparr>"
  have r: "''json_output'' \<in> dirs ?skipped" "clock_reads ?skipped = 0"
    by (simp_all add: ready_state_def empty_state_def)
  have "article_loop example_world ''example_com'' ''culture'' ([] @ row_a # [row_b]) ready_state =
      (case article_loop example_world ''example_com'' ''culture'' [] ready_state of
         Inl x \<Rightarrow> Inl x
       | Inr st' \<Rightarrow> article_loop example_world ''example_com'' ''culture'' [row_b]
           (st'\<lparr>out := out st' @
             [''    -> Scraping article: '' @ str_of (Some ''https://example.com/article/a''),
              ''    [!] Failed to fetch article '' @ str_of (Some ''https://example.com/article/a'') @
                '': '' @ ''500 Server Error'']\<rparr>))"
    using fetch_failure_skips_article [OF row_item_a get_article_a,
        of ready_state "''example_com''" "''culture''" "[]" "[row_b]"]
    unfolding Let_def by (rule conjunct2)
  also have "\<dots> = article_loop example_world ''example_com'' ''culture'' [row_b] ?skipped"
    by (simp only: article_loop.simps sum.case)
  also have "\<dots> = Inr ?written"
    by (simp only: article_loop.simps saved_example [OF r] sum.case)
  finally have l: "article_loop example_world ''example_com'' ''culture'' [row_a, row_b]
      ready_state = Inr ?written"
    by (simp only: append_Nil)
  show ?thesis
  proof (intro exI conjI)
    show "article_loop example_world ''example_com'' ''culture'' [row_a, row_b] ready_state =
        Inr ?written"
      by (fact l)
    show "out ?written =
        [''    -> Scraping article: https://example.com/article/a'',
         ''    [!] Failed to fetch article https://example.com/article/a: 500 Server Error'',
         ''    -> Scraping article: https://example.com/article/b'',
         ''    [+] Successfully saved metadata to json_output/example_com_culture_Hello__World__20240307090500.json'' @ [CHR 0x0A]]"
      by (simp add: ready_state_def empty_state_def str_of_def)
    show "json_files ?written =
        [''json_output/example_com_culture_Hello__World__20240307090500.json'' \<mapsto>
           article_metadata]"
      by (simp add: ready_state_def empty_state_def)
  qed
qed

end
